theory Spec2Isabelle
  imports Main "HOL-Library.Word"
begin

section \<open>Python values, exceptions and the wire format\<close>

text \<open>
  The client of the Tensormeter RTM server (\<^verbatim>\<open>tensormeterclient.py\<close>) is embedded as
  HOL functions. A byte is an 8-bit word and a byte string a list of bytes. A Python
  \<^verbatim>\<open>float\<close> is carried by its IEEE-754 binary64 bit pattern: \<^verbatim>\<open>struct\<close> copies that
  pattern to and from the wire, and no float arithmetic takes place anywhere in the client.
\<close>

type_synonym byte = "8 word"
type_synonym bytes = "byte list"

datatype pyval =
    PNone
  | PBool bool
  | PInt int
  | PFloat "64 word"
  | PStr string
  | PList "pyval list"
  | PTuple "pyval list"

text \<open>The element formats of the \<^verbatim>\<open>struct\<close> module that the table uses:
  \<^verbatim>\<open>'d'\<close>, \<^verbatim>\<open>'?'\<close>, \<^verbatim>\<open>'H'\<close>, \<^verbatim>\<open>'I'\<close> and \<^verbatim>\<open>'i'\<close>.\<close>

datatype fmt = Fd | Fbool | FH | FI | Fi

text \<open>What \<^verbatim>\<open>unpack\<close> returns and the store holds: a plain Python value, or the
  \<^verbatim>\<open>numpy\<close> array of a matrix field, given by its shape and its elements in buffer
  order (\<^verbatim>\<open>reshape\<close> changes the shape and leaves the buffer as it is).\<close>

datatype stored = Val pyval | NdArray "nat list" "pyval list"

text \<open>The messages of the \<^verbatim>\<open>ValueError\<close>s that can arise.\<close>

datatype value_error =
    UnknownDataField string nat
  | BufferSizeNotMultiple
  | CannotReshape nat "nat list"
  | NegativeBuffersize

datatype exc =
    ValueError value_error
  | UnicodeDecodeError
  | UnicodeEncodeError
  | StructError
  | KeyError string
  | TypeError
  | NotImplementedError
  | TimeoutError
  | BlockingIOError
  | OSError

text \<open>\<^verbatim>\<open>except ValueError\<close> catches \<^verbatim>\<open>ValueError\<close> and its subclasses, which include the
  two Unicode errors; \<^verbatim>\<open>struct.error\<close> derives from \<^verbatim>\<open>Exception\<close> directly.\<close>

fun is_ValueError :: "exc \<Rightarrow> bool" where
  "is_ValueError (ValueError _) = True"
| "is_ValueError UnicodeDecodeError = True"
| "is_ValueError UnicodeEncodeError = True"
| "is_ValueError _ = False"

subsection \<open>Big-endian integers\<close>

text \<open>\<open>be_bytes k n\<close> is the \<open>k\<close> low-order bytes of \<open>n\<close>, most significant first;
  \<open>be_nat\<close> reads a byte string as a big-endian number.\<close>

fun be_bytes :: "nat \<Rightarrow> nat \<Rightarrow> bytes" where
  "be_bytes 0 n = []"
| "be_bytes (Suc k) n = be_bytes k (n div 256) @ [word_of_nat n]"

definition be_nat :: "bytes \<Rightarrow> nat" where
  "be_nat bs = foldl (\<lambda>a b. a * 256 + unat b) 0 bs"

subsection \<open>Truth value, length and iteration of a Python value\<close>

fun truthy :: "pyval \<Rightarrow> bool" where
  "truthy PNone = False"
| "truthy (PBool b) = b"
| "truthy (PInt n) = (n \<noteq> 0)"
| "truthy (PFloat w) = (take_bit 63 w \<noteq> 0)"
| "truthy (PStr s) = (s \<noteq> [])"
| "truthy (PList xs) = (xs \<noteq> [])"
| "truthy (PTuple xs) = (xs \<noteq> [])"

fun py_len :: "pyval \<Rightarrow> exc + nat" where
  "py_len (PStr s) = Inr (length s)"
| "py_len (PList xs) = Inr (length xs)"
| "py_len (PTuple xs) = Inr (length xs)"
| "py_len _ = Inl TypeError"

fun py_iter :: "pyval \<Rightarrow> pyval list" where
  "py_iter (PStr s) = map (\<lambda>c. PStr [c]) s"
| "py_iter (PList xs) = xs"
| "py_iter (PTuple xs) = xs"
| "py_iter _ = []"

subsection \<open>Conversion of an integer to a float\<close>

text \<open>\<^verbatim>\<open>struct.pack\<close> with format \<^verbatim>\<open>'d'\<close> accepts an integer and converts it as
  \<^verbatim>\<open>float()\<close> does: to the nearest binary64 value, ties to the even mantissa, failing
  when the result would exceed the largest finite value. The computation is on integers.\<close>

fun bit_length :: "nat \<Rightarrow> nat" where
  "bit_length n = (if n = 0 then 0 else Suc (bit_length (n div 2)))"

declare bit_length.simps [simp del]

definition float_bits_of_int :: "int \<Rightarrow> (64 word) option" where
  "float_bits_of_int n =
     (if n = 0 then Some 0
      else
        let a = nat \<bar>n\<bar>;
            l = bit_length a;
            sh = l - 53;
            q = a div 2 ^ sh;
            r = a mod 2 ^ sh;
            up = (l > 53 \<and> (2 * r > 2 ^ sh \<or> (2 * r = 2 ^ sh \<and> odd q)));
            q' = (if up then q + 1 else q);
            m = (if l \<le> 53 then a * 2 ^ (53 - l) else if q' = 2 ^ 53 then 2 ^ 52 else q');
            e = (if l > 53 \<and> q' = 2 ^ 53 then l else l - 1)
        in if e > 1023 then None
           else Some (word_of_nat
                  ((if n < 0 then 2 ^ 63 else 0) + (e + 1023) * 2 ^ 52 + (m - 2 ^ 52))))"

subsection \<open>struct.pack and struct.unpack of one element\<close>

fun fmt_size :: "fmt \<Rightarrow> nat" where
  "fmt_size Fd = 8"
| "fmt_size Fbool = 1"
| "fmt_size FH = 2"
| "fmt_size FI = 4"
| "fmt_size Fi = 4"

text \<open>An integer format takes an \<^verbatim>\<open>int\<close> (a \<^verbatim>\<open>bool\<close> is one), and nothing else.\<close>

fun as_index :: "pyval \<Rightarrow> int option" where
  "as_index (PInt n) = Some n"
| "as_index (PBool b) = Some (if b then 1 else 0)"
| "as_index _ = None"

definition pack_int :: "nat \<Rightarrow> int \<Rightarrow> int \<Rightarrow> pyval \<Rightarrow> exc + bytes" where
  "pack_int k lo hi v =
     (case as_index v of
        None \<Rightarrow> Inl StructError
      | Some n \<Rightarrow>
          if lo \<le> n \<and> n \<le> hi then Inr (be_bytes k (nat (n mod 2 ^ (8 * k))))
          else Inl StructError)"

fun pack_elem :: "fmt \<Rightarrow> pyval \<Rightarrow> exc + bytes" where
  "pack_elem Fd v =
     (case v of
        PFloat w \<Rightarrow> Inr (be_bytes 8 (unat w))
      | _ \<Rightarrow>
          (case as_index v of
             None \<Rightarrow> Inl StructError
           | Some n \<Rightarrow>
               (case float_bits_of_int n of
                  None \<Rightarrow> Inl StructError
                | Some w \<Rightarrow> Inr (be_bytes 8 (unat w)))))"
| "pack_elem Fbool v = Inr [if truthy v then 1 else 0]"
| "pack_elem FH v = pack_int 2 0 65535 v"
| "pack_elem FI v = pack_int 4 0 4294967295 v"
| "pack_elem Fi v = pack_int 4 (- 2147483648) 2147483647 v"

text \<open>\<open>unpack_elem\<close> decodes the bytes of one element; its callers have checked that
  there are \<open>fmt_size\<close> of them.\<close>

fun unpack_elem :: "fmt \<Rightarrow> bytes \<Rightarrow> pyval" where
  "unpack_elem Fd bs = PFloat (word_of_nat (be_nat bs))"
| "unpack_elem Fbool bs = PBool (be_nat bs \<noteq> 0)"
| "unpack_elem FH bs = PInt (int (be_nat bs))"
| "unpack_elem FI bs = PInt (int (be_nat bs))"
| "unpack_elem Fi bs =
     PInt (if be_nat bs < 2147483648 then int (be_nat bs) else int (be_nat bs) - 4294967296)"

fun pack_elems :: "fmt \<Rightarrow> pyval list \<Rightarrow> exc + bytes" where
  "pack_elems f [] = Inr []"
| "pack_elems f (v # vs) =
     (case pack_elem f v of
        Inl e \<Rightarrow> Inl e
      | Inr b \<Rightarrow> (case pack_elems f vs of Inl e \<Rightarrow> Inl e | Inr bs \<Rightarrow> Inr (b @ bs)))"

text \<open>\<open>split_items k sz bs\<close> cuts \<open>bs\<close> into \<open>k\<close> consecutive pieces of \<open>sz\<close> bytes.\<close>

fun split_items :: "nat \<Rightarrow> nat \<Rightarrow> bytes \<Rightarrow> bytes list" where
  "split_items 0 sz bs = []"
| "split_items (Suc k) sz bs = take sz bs # split_items k sz (drop sz bs)"

text \<open>\<^verbatim>\<open>struct.unpack('>' + str(count) + fmt, bs)\<close>: the buffer must have exactly the
  size the format asks for.\<close>

definition struct_unpack :: "nat \<Rightarrow> fmt \<Rightarrow> bytes \<Rightarrow> exc + pyval list" where
  "struct_unpack count f bs =
     (if length bs \<noteq> count * fmt_size f then Inl StructError
      else Inr (map (unpack_elem f) (split_items count (fmt_size f) bs)))"

text \<open>\<^verbatim>\<open>bytes.decode("ASCII")\<close> and \<^verbatim>\<open>str.encode("ASCII")\<close>.\<close>

definition decode_ascii :: "bytes \<Rightarrow> exc + string" where
  "decode_ascii bs =
     (if list_all (\<lambda>b. unat b < 128) bs then Inr (map (\<lambda>b. char_of (unat b)) bs)
      else Inl UnicodeDecodeError)"

definition ascii_bytes :: "string \<Rightarrow> bytes" where
  "ascii_bytes s = map (\<lambda>c. word_of_nat (of_char c)) s"

definition encode_ascii :: "string \<Rightarrow> exc + bytes" where
  "encode_ascii s =
     (if list_all (\<lambda>c. (of_char c :: nat) < 128) s then Inr (ascii_bytes s)
      else Inl UnicodeEncodeError)"

section \<open>TensormeterData\<close>

text \<open>The table \<^verbatim>\<open>LUT\<close>: field code to (dimensions, format), in the order of the source.\<close>

definition LUT_items :: "(string \<times> nat \<times> fmt) list" where
  "LUT_items =
     [(''avgt'', 0, Fd), (''lfrq'', 0, Fd), (''vamp'', 0, Fd), (''vpro'', 0, Fd),
      (''camp'', 0, Fd), (''cpro'', 0, Fd), (''virg'', 0, Fd), (''cudc'', 0, Fd),
      (''vodc'', 0, Fd), (''vorg'', 0, Fd), (''crng'', 0, Fd), (''sres'', 0, Fd),
      (''aaup'', 0, Fbool), (''tcai'', 0, Fbool), (''refe'', 0, Fbool),
      (''cmod'', 0, FH), (''amod'', 0, FH), (''mod?'', 0, FH),
      (''trmo'', 0, FI), (''meas'', 0, Fi),
      (''swit'', 1, FI), (''selc'', 1, Fi), (''puar'', 1, Fd),
      (''newd'', 2, Fd), (''alld'', 2, Fd),
      (''mult'', 0, FH), (''auup'', 0, Fbool)]"

definition LUT :: "string \<rightharpoonup> nat \<times> fmt" where
  "LUT = map_of LUT_items"

record TensormeterData =
  data :: "string \<rightharpoonup> stored"

text \<open>\<^verbatim>\<open>__init__\<close>: every code of the table is mapped to \<^verbatim>\<open>None\<close>, and \<^verbatim>\<open>"TENS"\<close> to
  the empty string.\<close>

definition init_data :: TensormeterData where
  "init_data =
     \<lparr>data = (map_of (map (\<lambda>(k, _). (k, Val PNone)) LUT_items))(''TENS'' \<mapsto> Val (PStr ''''))\<rparr>"

definition pack :: "string \<Rightarrow> pyval \<Rightarrow> exc + bytes" where
  "pack cmd v =
     (case LUT cmd of
        None \<Rightarrow> Inl (KeyError cmd)
      | Some (dims, f) \<Rightarrow>
          if dims = 0 then pack_elem f v
          else if dims = 1 then
            (case py_len v of
               Inl e \<Rightarrow> Inl e
             | Inr count \<Rightarrow>
                 (case pack_int 4 0 4294967295 (PInt (int count)) of
                    Inl e \<Rightarrow> Inl e
                  | Inr cnt \<Rightarrow>
                      (case pack_elems f (py_iter v) of
                         Inl e \<Rightarrow> Inl e
                       | Inr bs \<Rightarrow> Inr (cnt @ bs))))
          else Inl NotImplementedError)"

text \<open>\<^verbatim>\<open>np.frombuffer(data, dtype, offset=8)\<close> followed by \<^verbatim>\<open>reshape(cols, rows)\<close>.
  \<^verbatim>\<open>frombuffer\<close> raises \<^verbatim>\<open>ValueError\<close> when the bytes after the offset are not a whole
  number of elements, and \<^verbatim>\<open>reshape\<close> raises \<^verbatim>\<open>ValueError\<close> when the number of elements
  is not the product of the new shape.\<close>

definition frombuffer :: "fmt \<Rightarrow> bytes \<Rightarrow> exc + pyval list" where
  "frombuffer f bs =
     (if length bs mod fmt_size f \<noteq> 0 then Inl (ValueError BufferSizeNotMultiple)
      else Inr (map (unpack_elem f) (split_items (length bs div fmt_size f) (fmt_size f) bs)))"

definition reshape :: "pyval list \<Rightarrow> nat \<Rightarrow> nat \<Rightarrow> exc + stored" where
  "reshape elems d0 d1 =
     (if d0 * d1 \<noteq> length elems then Inl (ValueError (CannotReshape (length elems) [d0, d1]))
      else Inr (NdArray [d0, d1] elems))"

text \<open>In \<^verbatim>\<open>unpack\<close> the count of a vector is the number in the first four bytes, and
  \<open>rows\<close> and \<open>cols\<close> of a matrix are the numbers in the first and the second four
  bytes; \<^verbatim>\<open>struct.unpack\<close> of the header fails when it is shorter than that.\<close>

definition unpack :: "string \<Rightarrow> bytes \<Rightarrow> exc + stored" where
  "unpack cmd bs =
     (if cmd = ''TENS'' then
        (case decode_ascii bs of
           Inl e \<Rightarrow> Inl e
         | Inr s \<Rightarrow> Inr (Val (PStr (cmd @ s))))
      else
        (case LUT cmd of
           None \<Rightarrow> Inl (KeyError cmd)
         | Some (dims, f) \<Rightarrow>
             if dims = 0 then
               (case struct_unpack 1 f bs of
                  Inl e \<Rightarrow> Inl e
                | Inr vs \<Rightarrow> Inr (Val (hd vs)))
             else if dims = 1 then
               (case struct_unpack 1 FI (take 4 bs) of
                  Inl e \<Rightarrow> Inl e
                | Inr cs \<Rightarrow>
                    (case struct_unpack (be_nat (take 4 bs)) f (drop 4 bs) of
                       Inl e \<Rightarrow> Inl e
                     | Inr vs \<Rightarrow> Inr (Val (PTuple vs))))
             else if dims = 2 then
               (case struct_unpack 2 FI (take 8 bs) of
                  Inl e \<Rightarrow> Inl e
                | Inr rc \<Rightarrow>
                    (case frombuffer f (drop 8 bs) of
                       Inl e \<Rightarrow> Inl e
                     | Inr elems \<Rightarrow>
                         reshape elems (be_nat (take 4 (drop 4 bs))) (be_nat (take 4 bs))))
             else Inl NotImplementedError))"

text \<open>\<^verbatim>\<open>update\<close> returns the exception raised, if any, and the object afterwards.\<close>

definition update :: "TensormeterData \<Rightarrow> string \<Rightarrow> bytes \<Rightarrow> exc option \<times> TensormeterData" where
  "update td cmd bs =
     (if data td cmd = None then (Some (ValueError (UnknownDataField cmd (length bs))), td)
      else
        (case unpack cmd bs of
           Inl e \<Rightarrow> (Some e, td)
         | Inr v \<Rightarrow> (None, td\<lparr>data := (data td)(cmd \<mapsto> v)\<rparr>)))"

section \<open>TensormeterRTM1Client\<close>

text \<open>The state of a client: the \<^verbatim>\<open>TensormeterData\<close> object, the flag \<^verbatim>\<open>_stopped\<close>, the
  flag of the \<^verbatim>\<open>threading.Event\<close>, whether \<^verbatim>\<open>close\<close> has run, the lines handed to the
  logger, and the messages written to the socket, in order.\<close>

datatype log_entry =
    LogDebugReceived string nat
  | LogErrorUpdating string exc
  | LogErrorRemoteShutdown
  | LogDebugSend string bytes

record client =
  tensordata :: TensormeterData
  stopped :: bool
  closed :: bool
  data_ready_event :: bool
  logged :: "log_entry list"
  sent :: "bytes list"

text \<open>The client as \<^verbatim>\<open>connect\<close> leaves it, before the identity query is sent.\<close>

definition connected :: client where
  "connected =
     \<lparr>tensordata = init_data, stopped = False, closed = False, data_ready_event = False,
      logged = [], sent = []\<rparr>"

text \<open>\<^verbatim>\<open>close\<close>: a second call finds the socket no longer registered with the selector,
  and \<^verbatim>\<open>unregister\<close> raises \<^verbatim>\<open>KeyError\<close>.\<close>

definition close :: "client \<Rightarrow> exc + client" where
  "close c = (if closed c then Inl (KeyError ''fd'') else Inr (c\<lparr>closed := True\<rparr>))"

text \<open>\<^verbatim>\<open>struct.pack('>I ' + str(n) + 's', count, cmd_bytes)\<close>: the count as an unsigned
  32-bit number, then the byte string cut or padded with zero bytes to \<open>n\<close> bytes.\<close>

definition pack_header :: "nat \<Rightarrow> nat \<Rightarrow> bytes \<Rightarrow> exc + bytes" where
  "pack_header n count cmd_bytes =
     (case pack_int 4 0 4294967295 (PInt (int count)) of
        Inl e \<Rightarrow> Inl e
      | Inr cnt \<Rightarrow> Inr (cnt @ take n cmd_bytes @ replicate (n - length cmd_bytes) 0))"

text \<open>\<^verbatim>\<open>send\<close> returns the exception raised, if any, and the client afterwards. The
  argument is a plain Python value, \<^verbatim>\<open>None\<close> when the caller gives none.\<close>

definition send :: "client \<Rightarrow> string \<Rightarrow> pyval \<Rightarrow> exc option \<times> client" where
  "send c cmd v =
     (case (if truthy v then pack cmd v else Inr []) of
        Inl e \<Rightarrow> (Some e, c)
      | Inr data_bytes \<Rightarrow>
          (case encode_ascii cmd of
             Inl e \<Rightarrow> (Some e, c)
           | Inr cmd_bytes \<Rightarrow>
               (case pack_header (length cmd) (length cmd_bytes + length data_bytes) cmd_bytes of
                  Inl e \<Rightarrow> (Some e, c)
                | Inr hdr \<Rightarrow>
                    (let msg = hdr @ data_bytes;
                         c1 = c\<lparr>logged := logged c @ [LogDebugSend cmd msg]\<rparr>
                     in if closed c1 then (Some OSError, c1)
                        else (None, c1\<lparr>sent := sent c1 @ [msg]\<rparr>)))))"

definition measure_cmd :: "client \<Rightarrow> pyval \<Rightarrow> exc option \<times> client" where
  "measure_cmd c nmeas = send c ''meas'' nmeas"

definition select_channels :: "client \<Rightarrow> pyval \<Rightarrow> exc option \<times> client" where
  "select_channels c channels = send c ''selc'' channels"

definition clear_data :: "client \<Rightarrow> exc option \<times> client" where
  "clear_data c = send c ''cldt'' PNone"

subsection \<open>The reader thread\<close>

text \<open>Lines 129 to 137 of \<^verbatim>\<open>_reader\<close>: what is done with one message once its code and
  its payload have been read. The result is the exception that escapes, if any, and the
  client afterwards.\<close>

definition process_message :: "client \<Rightarrow> string \<Rightarrow> bytes \<Rightarrow> exc option \<times> client" where
  "process_message c cmd bs =
     (let c1 = c\<lparr>logged := logged c @ [LogDebugReceived cmd (length bs)]\<rparr>;
          r = (if bs \<noteq> [] then
                 (case update (tensordata c1) cmd bs of
                    (None, td) \<Rightarrow> (None, c1\<lparr>tensordata := td\<rparr>)
                  | (Some e, td) \<Rightarrow>
                      if is_ValueError e
                      then (None, c1\<lparr>tensordata := td,
                                      logged := logged c1 @ [LogErrorUpdating cmd e]\<rparr>)
                      else (Some e, c1\<lparr>tensordata := td\<rparr>))
               else (None, c1))
      in case r of
           (Some e, c2) \<Rightarrow> (Some e, c2)
         | (None, c2) \<Rightarrow>
             (None, if cmd \<in> set [''newd'', ''alld''] then c2\<lparr>data_ready_event := True\<rparr> else c2))"

text \<open>What the socket does is given as a script: the results of the successive calls of
  \<^verbatim>\<open>recv\<close>, in the order in which the reader makes them. A call returns bytes (none at
  all when the peer has shut the connection down) or, the socket being non-blocking,
  raises \<^verbatim>\<open>BlockingIOError\<close>. When the script is used up, nothing more arrives:
  \<^verbatim>\<open>select\<close> does not return, and a \<^verbatim>\<open>recv\<close> that no \<^verbatim>\<open>select\<close> precedes finds no
  data and raises \<^verbatim>\<open>BlockingIOError\<close>. The script is that of the open socket on which
  \<^verbatim>\<open>connect\<close> starts the reader; a call with a negative size raises \<^verbatim>\<open>ValueError\<close>
  before it reads.\<close>

datatype recv_result = Recv bytes | WouldBlock

datatype 'a step = Done 'a "recv_result list" | Raised exc | Starved

definition sock_recv :: "int \<Rightarrow> recv_result list \<Rightarrow> bytes step" where
  "sock_recv n script =
     (if n < 0 then Raised (ValueError NegativeBuffersize)
      else
        (case script of
           [] \<Rightarrow> Starved
         | WouldBlock # rest \<Rightarrow> Raised BlockingIOError
         | Recv d # rest \<Rightarrow> Done d rest))"

text \<open>The loop \<^verbatim>\<open>while len(data) != length\<close>, which waits for the socket and reads on.\<close>

fun recv_rest :: "int \<Rightarrow> bytes \<Rightarrow> recv_result list \<Rightarrow> bytes step" where
  "recv_rest len d [] = (if int (length d) = len then Done d [] else Starved)"
| "recv_rest len d (r # rest) =
     (if int (length d) = len then Done d (r # rest)
      else if len - int (length d) < 0 then Raised (ValueError NegativeBuffersize)
      else
        (case r of
           WouldBlock \<Rightarrow> Raised BlockingIOError
         | Recv d' \<Rightarrow> recv_rest len (d @ d') rest))"

datatype outcome = Exited | Crashed exc | Waiting

text \<open>One pass through the body of \<^verbatim>\<open>for event in events\<close>, for a socket that is ready:
  the outcome (\<open>None\<close> when the loop goes on), the client and the rest of the script.
  The reads of the code and of the first part of the payload follow the read of the length
  with no \<^verbatim>\<open>select\<close> in between; only the loop \<^verbatim>\<open>while len(data) != length\<close> waits
  for the socket again.\<close>

definition handle_event ::
  "recv_result list \<Rightarrow> client \<Rightarrow> outcome option \<times> client \<times> recv_result list" where
  "handle_event script c =
     (case sock_recv 4 script of
        Starved \<Rightarrow> (Some Waiting, c, [])
      | Raised e \<Rightarrow> (Some (Crashed e), c, script)
      | Done msglen rest \<Rightarrow>
          if msglen \<noteq> [] then
            (case struct_unpack 1 FI msglen of
               Inl e \<Rightarrow> (Some (Crashed e), c, rest)
             | Inr _ \<Rightarrow>
                 (let len = int (be_nat msglen) - 4 in
                  case sock_recv 4 rest of
                    Starved \<Rightarrow> (Some (Crashed BlockingIOError), c, [])
                  | Raised e \<Rightarrow> (Some (Crashed e), c, rest)
                  | Done cmd_bytes rest1 \<Rightarrow>
                      (case decode_ascii cmd_bytes of
                         Inl e \<Rightarrow> (Some (Crashed e), c, rest1)
                       | Inr cmd \<Rightarrow>
                           (case sock_recv len rest1 of
                              Starved \<Rightarrow> (Some (Crashed BlockingIOError), c, [])
                            | Raised e \<Rightarrow> (Some (Crashed e), c, rest1)
                            | Done d rest2 \<Rightarrow>
                                (case recv_rest len d rest2 of
                                   Starved \<Rightarrow> (Some Waiting, c, [])
                                 | Raised e \<Rightarrow> (Some (Crashed e), c, rest2)
                                 | Done bs rest3 \<Rightarrow>
                                     (case process_message c cmd bs of
                                        (Some e, c') \<Rightarrow> (Some (Crashed e), c', rest3)
                                      | (None, c') \<Rightarrow> (None, c', rest3)))))))
          else
            (let c1 = c\<lparr>logged := logged c @ [LogErrorRemoteShutdown], stopped := True\<rparr>
             in case close c1 of
                  Inl e \<Rightarrow> (Some (Crashed e), c1, rest)
                | Inr c2 \<Rightarrow> (None, c2, rest)))"

text \<open>The loop \<^verbatim>\<open>while not self._stopped\<close>. With nothing left in the script,
  \<^verbatim>\<open>select\<close> does not return.\<close>

lemma sock_recv_shorter: "sock_recv n script = Done d rest \<Longrightarrow> length rest < length script"
  by (auto simp: sock_recv_def split: if_splits list.splits recv_result.splits)

lemma recv_rest_shorter: "recv_rest len d script = Done bs rest \<Longrightarrow> length rest \<le> length script"
proof (induction script arbitrary: d)
  case Nil
  then show ?case by (simp split: if_splits)
next
  case (Cons r script)
  then show ?case
    by (fastforce split: if_splits recv_result.splits)
qed

lemma handle_event_shorter:
  "handle_event script c = (None, c', rest) \<Longrightarrow> length rest < length script"
  unfolding handle_event_def Let_def
  by (auto split: step.splits if_splits sum.splits prod.splits option.splits
      dest!: sock_recv_shorter recv_rest_shorter)

function reader :: "recv_result list \<Rightarrow> client \<Rightarrow> outcome \<times> client" where
  "reader script c =
     (if stopped c then (Exited, c)
      else if script = [] then (Waiting, c)
      else
        (case handle_event script c of
           (Some out, c', rest) \<Rightarrow> (out, c')
         | (None, c', rest) \<Rightarrow> reader rest c'))"
  by pat_completeness auto
termination
  by (relation "measure (\<lambda>(script, c). length script)") (auto dest: handle_event_shorter [OF sym])

declare reader.simps [simp del]

subsection \<open>get_data\<close>

text \<open>\<^verbatim>\<open>self._data_ready_event.wait(timeout)\<close> returns at once when the flag is set;
  otherwise the caller sleeps while the reader thread works, and the call returns
  \<^verbatim>\<open>True\<close> as soon as the reader sets the flag and \<^verbatim>\<open>False\<close> when the time is up. The
  messages that the reader handles before the time is up are the list \<open>arrivals\<close>, each
  with its code and its payload; a message on which the reader thread dies ends them.
  Between the return of \<^verbatim>\<open>wait\<close> and the read of the store the reader is taken not to
  run.\<close>

fun event_wait :: "client \<Rightarrow> (string \<times> bytes) list \<Rightarrow> bool \<times> client" where
  "event_wait c [] = (data_ready_event c, c)"
| "event_wait c ((cmd, bs) # ms) =
     (if data_ready_event c then (True, c)
      else
        (case process_message c cmd bs of
           (None, c') \<Rightarrow> event_wait c' ms
         | (Some e, c') \<Rightarrow> (False, c')))"

definition get_data :: "client \<Rightarrow> bool \<Rightarrow> (string \<times> bytes) list \<Rightarrow> (exc + stored) \<times> client" where
  "get_data c all_data arrivals =
     (let cmd = (if all_data then ''alld'' else ''newd'') in
      case send c cmd PNone of
        (Some e, c1) \<Rightarrow> (Inl e, c1)
      | (None, c1) \<Rightarrow>
          (case event_wait c1 arrivals of
             (True, c2) \<Rightarrow>
               (let c3 = c2\<lparr>data_ready_event := False\<rparr> in
                case data (tensordata c3) cmd of
                  None \<Rightarrow> (Inl (KeyError cmd), c3)
                | Some v \<Rightarrow> (Inr v, c3))
           | (False, c2) \<Rightarrow> (Inl TimeoutError, c2)))"

section \<open>Values in the range of a format\<close>

text \<open>The values of the element type that a format declares: a float for \<^verbatim>\<open>'d'\<close>, a
  boolean for \<^verbatim>\<open>'?'\<close>, and an integer within the bounds of the format for \<^verbatim>\<open>'H'\<close>,
  \<^verbatim>\<open>'I'\<close> and \<^verbatim>\<open>'i'\<close>.\<close>

fun in_range :: "fmt \<Rightarrow> pyval \<Rightarrow> bool" where
  "in_range Fd v = (case v of PFloat w \<Rightarrow> True | _ \<Rightarrow> False)"
| "in_range Fbool v = (case v of PBool b \<Rightarrow> True | _ \<Rightarrow> False)"
| "in_range FH v = (case v of PInt n \<Rightarrow> 0 \<le> n \<and> n \<le> 65535 | _ \<Rightarrow> False)"
| "in_range FI v = (case v of PInt n \<Rightarrow> 0 \<le> n \<and> n \<le> 4294967295 | _ \<Rightarrow> False)"
| "in_range Fi v = (case v of PInt n \<Rightarrow> - 2147483648 \<le> n \<and> n \<le> 2147483647 | _ \<Rightarrow> False)"

section \<open>Big-endian encoding: basic facts\<close>

lemma length_be_bytes [simp]: "length (be_bytes k n) = k"
  by (induction k arbitrary: n) auto

lemma be_nat_snoc: "be_nat (bs @ [b]) = be_nat bs * 256 + unat b"
  by (simp add: be_nat_def)

lemma be_nat_be_bytes: "be_nat (be_bytes k n) = n mod 256 ^ k"
proof (induction k arbitrary: n)
  case 0
  then show ?case by (simp add: be_nat_def)
next
  case (Suc k)
  have "unat (word_of_nat n :: byte) = n mod 256"
    by (simp add: unat_of_nat)
  then have "be_nat (be_bytes (Suc k) n) = (n div 256) mod 256 ^ k * 256 + n mod 256"
    by (simp add: be_nat_snoc Suc.IH)
  also have "\<dots> = n mod 256 ^ Suc k"
    by (simp add: mod_mult2_eq)
  finally show ?case .
qed

lemma be_bytes_2: "be_bytes 2 n = [word_of_nat (n div 256), word_of_nat n]"
proof -
  have "(2::nat) = Suc (Suc 0)" by simp
  then show ?thesis by (simp only: be_bytes.simps) simp
qed

lemma be_bytes_4:
  "be_bytes 4 n =
     [word_of_nat (n div 16777216), word_of_nat (n div 65536), word_of_nat (n div 256),
      word_of_nat n]"
proof -
  have "(4::nat) = Suc (Suc (Suc (Suc 0)))" by simp
  then show ?thesis by (simp only: be_bytes.simps) (simp add: div_mult2_eq [symmetric])
qed

lemma be_bytes_8: "be_bytes 8 n = be_bytes 4 (n div 4294967296) @ be_bytes 4 n"
proof -
  have "(8::nat) = Suc (Suc (Suc (Suc (Suc (Suc (Suc (Suc 0)))))))" by simp
  then show ?thesis
    by (simp only: be_bytes.simps be_bytes_4) (simp add: div_mult2_eq [symmetric])
qed

section \<open>update on a code that is not a key of the store\<close>

text \<open>
  Claim C6. For a code that is not a key of the dictionary \<^verbatim>\<open>data\<close>, and any payload,
  \<^verbatim>\<open>update\<close> raises the \<^verbatim>\<open>ValueError\<close> that names the code and the number of payload
  bytes, and the object is afterwards what it was before: no entry has changed.
\<close>

theorem update_unrecognized:
  assumes "cmd \<notin> dom (data td)"
  shows "update td cmd bs = (Some (ValueError (UnknownDataField cmd (length bs))), td)"
  using assms by (simp add: update_def domIff)

theorem update_unrecognized_witness:
  "''zzzz'' \<notin> dom (data init_data) \<and>
   update init_data ''zzzz'' [1, 2, 3] =
     (Some (ValueError (UnknownDataField ''zzzz'' 3)), init_data)"
proof -
  have h: "''zzzz'' \<notin> dom (data init_data)"
    by (simp add: domIff init_data_def LUT_items_def)
  show ?thesis using h update_unrecognized [OF h, of "[1, 2, 3]"] by simp
qed

section \<open>A message with an empty payload\<close>

text \<open>
  Claim C9. When the payload of an inbound message is empty, the reader does not call
  \<^verbatim>\<open>update\<close>: whatever the code, recognized or not, no exception arises and the only
  changes to the client are the debug line and the data-ready flag, which is set when the
  code is \<^verbatim>\<open>newd\<close> or \<^verbatim>\<open>alld\<close> and is left as it was otherwise. The store is not written.
\<close>

theorem empty_payload_skips_update:
  "process_message c cmd [] =
     (None, c\<lparr>logged := logged c @ [LogDebugReceived cmd 0],
              data_ready_event := (data_ready_event c \<or> cmd = ''newd'' \<or> cmd = ''alld'')\<rparr>)"
  by (auto simp: process_message_def Let_def)

theorem empty_payload_skips_update_witness:
  "process_message connected ''zzzz'' [] =
     (None, connected\<lparr>logged := [LogDebugReceived ''zzzz'' 0]\<rparr>) \<and>
   process_message connected ''newd'' [] =
     (None, connected\<lparr>logged := [LogDebugReceived ''newd'' 0], data_ready_event := True\<rparr>)"
  using empty_payload_skips_update [of connected "''zzzz''"]
    empty_payload_skips_update [of connected "''newd''"]
  by (simp add: connected_def)

section \<open>Messages sent\<close>

lemma LUT_key_ascii:
  assumes "LUT cmd = Some x"
  shows "length cmd = 4 \<and> encode_ascii cmd = Inr (ascii_bytes cmd)"
proof -
  from assms have "(cmd, x) \<in> set LUT_items"
    unfolding LUT_def by (rule map_of_SomeD)
  then show ?thesis
    unfolding LUT_items_def by (auto simp: encode_ascii_def ascii_bytes_def)
qed

lemma pack_header_ok:
  assumes "length cb = n" "count < 4294967296"
  shows "pack_header n count cb = Inr (be_bytes 4 count @ cb)"
  using assms by (simp add: pack_header_def pack_int_def)

lemma pack_meas_5: "pack ''meas'' (PInt 5) = Inr [0, 0, 0, 5]"
  by (simp add: pack_def LUT_def LUT_items_def pack_int_def be_bytes_4)


text \<open>
  Claim C5. For a code of the table, a value that is true in the sense of \<^verbatim>\<open>if data\<close>
  and that \<^verbatim>\<open>pack\<close> accepts, \<^verbatim>\<open>send\<close> writes one message to the socket: the length as an
  unsigned big-endian 32-bit number, equal to 4 plus the number of payload bytes, then the
  four ASCII bytes of the code, then the payload as \<^verbatim>\<open>pack\<close> produced it. (The length has to
  fit into 32 bits.) In particular \<^verbatim>\<open>measure(5)\<close> writes
  \<^verbatim>\<open>00 00 00 08 6D 65 61 73 00 00 00 05\<close>, which the second theorem computes.
\<close>

theorem send_frame:
  assumes "LUT cmd = Some x" and "truthy v" and "pack cmd v = Inr payload"
    and "4 + length payload < 4294967296" and "\<not> closed c"
  shows "send c cmd v =
           (None, c\<lparr>logged := logged c @
                        [LogDebugSend cmd (be_bytes 4 (4 + length payload) @ ascii_bytes cmd @ payload)],
                    sent := sent c @ [be_bytes 4 (4 + length payload) @ ascii_bytes cmd @ payload]\<rparr>)"
proof -
  from LUT_key_ascii [OF assms(1)]
  have len: "length cmd = 4" and enc: "encode_ascii cmd = Inr (ascii_bytes cmd)" by simp_all
  have "length (ascii_bytes cmd) = 4" by (simp add: ascii_bytes_def len)
  then have "pack_header (length cmd) (length (ascii_bytes cmd) + length payload) (ascii_bytes cmd)
      = Inr (be_bytes 4 (4 + length payload) @ ascii_bytes cmd)"
    using assms(4) by (simp add: pack_header_ok len)
  then show ?thesis
    using assms(2,3,5) enc by (simp add: send_def Let_def)
qed

theorem send_frame_witness:
  "LUT ''meas'' = Some (0, Fi) \<and> truthy (PInt 5) \<and> pack ''meas'' (PInt 5) = Inr [0, 0, 0, 5] \<and>
   4 + length [0, 0, 0, 5 :: byte] < (4294967296 :: nat) \<and> \<not> closed connected \<and>
   sent (snd (measure_cmd connected (PInt 5))) =
     [[0x00, 0x00, 0x00, 0x08, 0x6D, 0x65, 0x61, 0x73, 0x00, 0x00, 0x00, 0x05]]"
proof -
  have h1: "LUT ''meas'' = Some (0, Fi)" by (simp add: LUT_def LUT_items_def)
  have h2: "truthy (PInt 5)" by simp
  have h4: "4 + length [0, 0, 0, 5 :: byte] < (4294967296 :: nat)" by simp
  have h5: "\<not> closed connected" by (simp add: connected_def)
  show ?thesis
    using h1 h2 pack_meas_5 h4 h5 send_frame [OF h1 h2 pack_meas_5 h4 h5]
    by (simp add: measure_cmd_def connected_def be_bytes_4 ascii_bytes_def)
qed

section \<open>Values that count as false\<close>

text \<open>
  Claim C10. \<^verbatim>\<open>send\<close> decides with \<^verbatim>\<open>if data\<close> whether there is a payload, so every
  value that Python takes for false (\<^verbatim>\<open>0\<close>, \<^verbatim>\<open>False\<close>, an empty list, ...) is sent exactly
  as no value at all is. \<^verbatim>\<open>measure(0)\<close> and \<^verbatim>\<open>select_channels([])\<close> each write a message
  with the length 4, the code, and no payload byte.
\<close>

theorem send_falsy:
  assumes "\<not> truthy v" and "\<not> closed c"
  shows "send c cmd v = send c cmd PNone \<and>
         measure_cmd c (PInt 0) =
           (None, c\<lparr>logged := logged c @
                        [LogDebugSend ''meas'' [0x00, 0x00, 0x00, 0x04, 0x6D, 0x65, 0x61, 0x73]],
                    sent := sent c @ [[0x00, 0x00, 0x00, 0x04, 0x6D, 0x65, 0x61, 0x73]]\<rparr>) \<and>
         select_channels c (PList []) =
           (None, c\<lparr>logged := logged c @
                        [LogDebugSend ''selc'' [0x00, 0x00, 0x00, 0x04, 0x73, 0x65, 0x6C, 0x63]],
                    sent := sent c @ [[0x00, 0x00, 0x00, 0x04, 0x73, 0x65, 0x6C, 0x63]]\<rparr>)"
proof -
  have "send c cmd v = send c cmd PNone"
    using assms(1) by (simp add: send_def)
  moreover have "measure_cmd c (PInt 0) =
           (None, c\<lparr>logged := logged c @
                        [LogDebugSend ''meas'' [0x00, 0x00, 0x00, 0x04, 0x6D, 0x65, 0x61, 0x73]],
                    sent := sent c @ [[0x00, 0x00, 0x00, 0x04, 0x6D, 0x65, 0x61, 0x73]]\<rparr>)"
    using assms(2)
    by (simp add: measure_cmd_def send_def encode_ascii_def ascii_bytes_def pack_header_def pack_int_def
        be_bytes_4 Let_def)
  moreover have "select_channels c (PList []) =
           (None, c\<lparr>logged := logged c @
                        [LogDebugSend ''selc'' [0x00, 0x00, 0x00, 0x04, 0x73, 0x65, 0x6C, 0x63]],
                    sent := sent c @ [[0x00, 0x00, 0x00, 0x04, 0x73, 0x65, 0x6C, 0x63]]\<rparr>)"
    using assms(2)
    by (simp add: select_channels_def send_def encode_ascii_def ascii_bytes_def pack_header_def pack_int_def
        be_bytes_4 Let_def)
  ultimately show ?thesis by simp
qed

theorem send_falsy_witness:
  "\<not> truthy (PBool False) \<and> \<not> closed connected \<and>
   send connected ''aaup'' (PBool False) = send connected ''aaup'' PNone \<and>
   sent (snd (send connected ''aaup'' (PBool False))) =
     [[0x00, 0x00, 0x00, 0x04, 0x61, 0x61, 0x75, 0x70]] \<and>
   sent (snd (measure_cmd connected (PInt 0))) =
     [[0x00, 0x00, 0x00, 0x04, 0x6D, 0x65, 0x61, 0x73]]"
proof -
  have h1: "\<not> truthy (PBool False)" by simp
  have h2: "\<not> closed connected" by (simp add: connected_def)
  have "sent (snd (send connected ''aaup'' PNone)) =
     [[0x00, 0x00, 0x00, 0x04, 0x61, 0x61, 0x75, 0x70]]"
    by (simp add: send_def encode_ascii_def ascii_bytes_def pack_header_def pack_int_def be_bytes_4 Let_def
        connected_def)
  then show ?thesis
    using h1 h2 send_falsy [OF h1 h2, of "''aaup''"] by (simp add: connected_def)
qed

section \<open>The reader thread: shutdown of the peer and failures of update\<close>

lemma handle_event_zero_read:
  assumes "\<not> closed c"
  shows "handle_event (Recv [] # rest) c =
           (None, c\<lparr>logged := logged c @ [LogErrorRemoteShutdown], stopped := True,
                     closed := True\<rparr>, rest)"
  using assms by (simp add: handle_event_def sock_recv_def close_def Let_def)

text \<open>
  Claim C7. When the reader, not yet stopped and with its socket open, reads the length
  prefix and \<^verbatim>\<open>recv\<close> returns no bytes, it logs the shutdown, sets \<^verbatim>\<open>_stopped\<close>, closes
  its resources and leaves the loop. Whatever the socket would still deliver (\<open>rest\<close>) is
  not read: the client at the exit differs from the one before the read in the log line
  and the two flags only, so the store is not written again.
\<close>

theorem zero_read_stops_reader:
  assumes "\<not> stopped c" and "\<not> closed c"
  shows "reader (Recv [] # rest) c =
           (Exited, c\<lparr>logged := logged c @ [LogErrorRemoteShutdown], stopped := True,
                       closed := True\<rparr>)"
proof -
  let ?c' = "c\<lparr>logged := logged c @ [LogErrorRemoteShutdown], stopped := True, closed := True\<rparr>"
  have "reader (Recv [] # rest) c = reader rest ?c'"
    using assms by (subst reader.simps) (simp add: handle_event_zero_read)
  also have "\<dots> = (Exited, ?c')"
    by (subst reader.simps) simp
  finally show ?thesis .
qed


theorem zero_read_stops_reader_witness:
  "\<not> stopped connected \<and> \<not> closed connected \<and>
   reader [Recv [], Recv [0x00, 0x00, 0x00, 0x08], Recv [0x6D, 0x65, 0x61, 0x73],
           Recv [0x00, 0x00, 0x00, 0x07]] connected =
     (Exited, connected\<lparr>logged := [LogErrorRemoteShutdown], stopped := True, closed := True\<rparr>)"
proof -
  have h1: "\<not> stopped connected" and h2: "\<not> closed connected"
    by (simp_all add: connected_def)
  show ?thesis
    using h1 h2 zero_read_stops_reader [OF h1 h2] by (simp add: connected_def)
qed

lemma unpack_meas_short: "unpack ''meas'' [0] = Inl StructError"
  by (simp add: unpack_def LUT_def LUT_items_def struct_unpack_def)

lemma data_init_meas: "data init_data ''meas'' = Some (Val PNone)"
  by (simp add: init_data_def LUT_items_def)

lemma process_meas_short:
  "process_message connected ''meas'' [0] =
     (Some StructError, connected\<lparr>logged := [LogDebugReceived ''meas'' 1]\<rparr>)"
  by (simp add: process_message_def update_def unpack_meas_short connected_def data_init_meas Let_def)

lemma decode_meas: "decode_ascii [0x6D, 0x65, 0x61, 0x73] = Inr ''meas''"
  by (simp add: decode_ascii_def char_of_def bit_Suc_0_iff)

lemma process_message_catches_ValueError:
  assumes "bs \<noteq> []" and "update (tensordata c) cmd bs = (Some e, td)" and "is_ValueError e"
  shows "fst (process_message c cmd bs) = None \<and>
         LogErrorUpdating cmd e \<in> set (logged (snd (process_message c cmd bs)))"
  using assms by (simp add: process_message_def Let_def)

text \<open>
  Claim C3 says that a failure of \<^verbatim>\<open>update\<close> on one message is logged and that the
  reader goes on with the next message. The reader catches \<^verbatim>\<open>ValueError\<close> only. A payload
  whose length does not fit its scalar or vector format makes \<^verbatim>\<open>struct.unpack\<close> raise
  \<^verbatim>\<open>struct.error\<close>, which is not a \<^verbatim>\<open>ValueError\<close>: it leaves \<^verbatim>\<open>_reader\<close> and ends the
  thread. Here the socket delivers the message \<^verbatim>\<open>00 00 00 05 6D 65 61 73 00\<close> (code
  \<^verbatim>\<open>meas\<close>, one payload byte where four are due) and then a well-formed \<^verbatim>\<open>meas\<close> message
  with the value 7: the reader ends with \<^verbatim>\<open>struct.error\<close>, nothing but the debug line is
  logged, and the second message is never stored.
\<close>

theorem reader_dies_on_struct_error:
  "reader [Recv [0x00, 0x00, 0x00, 0x05], Recv [0x6D, 0x65, 0x61, 0x73], Recv [0x00],
           Recv [0x00, 0x00, 0x00, 0x08], Recv [0x6D, 0x65, 0x61, 0x73], Recv [0x00, 0x00, 0x00, 0x07]]
      connected =
     (Crashed StructError, connected\<lparr>logged := [LogDebugReceived ''meas'' 1]\<rparr>)"
proof -
  have "handle_event [Recv [0x00, 0x00, 0x00, 0x05], Recv [0x6D, 0x65, 0x61, 0x73], Recv [0x00],
           Recv [0x00, 0x00, 0x00, 0x08], Recv [0x6D, 0x65, 0x61, 0x73], Recv [0x00, 0x00, 0x00, 0x07]]
      connected =
     (Some (Crashed StructError), connected\<lparr>logged := [LogDebugReceived ''meas'' 1]\<rparr>,
      [Recv [0x00, 0x00, 0x00, 0x08], Recv [0x6D, 0x65, 0x61, 0x73], Recv [0x00, 0x00, 0x00, 0x07]])"
    by (simp add: handle_event_def sock_recv_def struct_unpack_def be_nat_def decode_meas
        process_meas_short Let_def)
  then show ?thesis
    by (subst reader.simps) (simp add: connected_def)
qed

section \<open>Decoding a matrix\<close>

lemma length_split_items [simp]: "length (split_items k sz bs) = k"
  by (induction k arbitrary: bs) auto

lemma split_items_numeral:
  "split_items (numeral n) sz bs = take sz bs # split_items (pred_numeral n) sz (drop sz bs)"
  by (simp add: numeral_eq_Suc)

lemma fmt_size_pos [simp]: "0 < fmt_size f"
  by (cases f) auto

lemma LUT_not_TENS: "LUT cmd = Some x \<Longrightarrow> cmd \<noteq> ''TENS''"
  by (auto simp: LUT_def LUT_items_def)

text \<open>What \<^verbatim>\<open>unpack\<close> does for a matrix field, case by case.\<close>

lemma unpack_matrix:
  assumes "LUT cmd = Some (2, f)"
  shows "unpack cmd bs =
    (if length bs < 8 then Inl StructError
     else if (length bs - 8) mod fmt_size f \<noteq> 0 then Inl (ValueError BufferSizeNotMultiple)
     else if be_nat (take 4 (drop 4 bs)) * be_nat (take 4 bs) \<noteq> (length bs - 8) div fmt_size f
       then Inl (ValueError (CannotReshape ((length bs - 8) div fmt_size f)
              [be_nat (take 4 (drop 4 bs)), be_nat (take 4 bs)]))
     else Inr (NdArray [be_nat (take 4 (drop 4 bs)), be_nat (take 4 bs)]
            (map (unpack_elem f)
              (split_items ((length bs - 8) div fmt_size f) (fmt_size f) (drop 8 bs)))))"
  using assms LUT_not_TENS [OF assms]
  by (auto simp: unpack_def struct_unpack_def frombuffer_def reshape_def min_def)

lemma be_nat_be_bytes_4: "n < 4294967296 \<Longrightarrow> be_nat (be_bytes 4 n) = n"
  by (simp add: be_nat_be_bytes)

lemma LUT_newd: "LUT ''newd'' = Some (2, Fd)"
  by (simp add: LUT_def LUT_items_def)

text \<open>
  Claim C2. For a matrix field (\<^verbatim>\<open>newd\<close>, \<^verbatim>\<open>alld\<close>), a payload made of \<open>rows\<close> and
  \<open>cols\<close> as unsigned big-endian 32-bit numbers followed by \<open>rows * cols\<close> elements is
  decoded to an array of shape \<open>(cols, rows)\<close>, that is \<open>cols\<close> rows of \<open>rows\<close> columns,
  whose buffer holds the elements in the order in which they were transmitted. The second
  theorem decodes \<open>rows = 2\<close>, \<open>cols = 3\<close> and the six floats 1.0 to 6.0 to an array of
  shape \<open>(3, 2)\<close>.
\<close>

theorem unpack_matrix_shape:
  assumes "LUT cmd = Some (2, f)" and "rows < 4294967296" and "cols < 4294967296"
    and "length body = rows * cols * fmt_size f"
  shows "unpack cmd (be_bytes 4 rows @ be_bytes 4 cols @ body) =
           Inr (NdArray [cols, rows]
             (map (unpack_elem f) (split_items (rows * cols) (fmt_size f) body)))"
  using assms(2-4) by (simp add: unpack_matrix [OF assms(1)] be_nat_be_bytes_4 mult.commute)

theorem unpack_matrix_shape_witness:
  "LUT ''newd'' = Some (2, Fd) \<and> (2::nat) < 4294967296 \<and> (3::nat) < 4294967296 \<and>
   unpack ''newd''
     [0x00, 0x00, 0x00, 0x02, 0x00, 0x00, 0x00, 0x03,
      0x3F, 0xF0, 0, 0, 0, 0, 0, 0,  0x40, 0x00, 0, 0, 0, 0, 0, 0,
      0x40, 0x08, 0, 0, 0, 0, 0, 0,  0x40, 0x10, 0, 0, 0, 0, 0, 0,
      0x40, 0x14, 0, 0, 0, 0, 0, 0,  0x40, 0x18, 0, 0, 0, 0, 0, 0] =
   Inr (NdArray [3, 2]
     [PFloat 0x3FF0000000000000, PFloat 0x4000000000000000, PFloat 0x4008000000000000,
      PFloat 0x4010000000000000, PFloat 0x4014000000000000, PFloat 0x4018000000000000])"
proof -
  have h2: "(2::nat) < 4294967296" and h3: "(3::nat) < 4294967296" by simp_all
  have h4: "length [0x3F, 0xF0, 0, 0, 0, 0, 0, 0,  0x40, 0x00, 0, 0, 0, 0, 0, 0,
      0x40, 0x08, 0, 0, 0, 0, 0, 0,  0x40, 0x10, 0, 0, 0, 0, 0, 0,
      0x40, 0x14, 0, 0, 0, 0, 0, 0,  0x40, 0x18, 0, 0, 0, 0, 0, 0 :: byte] = 2 * 3 * fmt_size Fd"
    by simp
  show ?thesis
    using LUT_newd h2 h3 unpack_matrix_shape [OF LUT_newd h2 h3 h4]
    by (simp add: be_bytes_4 split_items_numeral be_nat_def)
qed

text \<open>
  Claim C4 says that the decoder accepts a matrix payload whose length after the 8-byte
  header is not \<open>rows * cols\<close> times the element width. It does not: with \<open>rows = 2\<close>,
  \<open>cols = 3\<close> and five floats instead of six, \<^verbatim>\<open>reshape\<close> raises \<^verbatim>\<open>ValueError\<close>.
\<close>

theorem matrix_short_payload_counterexample:
  "unpack ''newd''
     [0x00, 0x00, 0x00, 0x02, 0x00, 0x00, 0x00, 0x03,
      0x3F, 0xF0, 0, 0, 0, 0, 0, 0,  0x40, 0x00, 0, 0, 0, 0, 0, 0,
      0x40, 0x08, 0, 0, 0, 0, 0, 0,  0x40, 0x10, 0, 0, 0, 0, 0, 0,
      0x40, 0x14, 0, 0, 0, 0, 0, 0] =
   Inl (ValueError (CannotReshape 5 [3, 2]))"
  by (simp add: unpack_matrix [OF LUT_newd] be_nat_def)


text \<open>
  Claim C4, amended. \<^verbatim>\<open>unpack\<close> has no length check of its own for a matrix, but
  \<^verbatim>\<open>numpy\<close> checks: for a matrix field and a payload of at least 8 bytes whose length after
  the header differs from \<open>rows * cols\<close> times the element width, \<^verbatim>\<open>unpack\<close> raises
  \<^verbatim>\<open>ValueError\<close> (from \<^verbatim>\<open>frombuffer\<close> or from \<^verbatim>\<open>reshape\<close>) and returns no value.
\<close>

theorem matrix_length_mismatch_fails:
  assumes "LUT cmd = Some (2, f)" and "8 \<le> length bs"
    and "length bs - 8 \<noteq> be_nat (take 4 bs) * be_nat (take 4 (drop 4 bs)) * fmt_size f"
  shows "\<exists>m. unpack cmd bs = Inl (ValueError m)"
proof (cases "(length bs - 8) mod fmt_size f = 0")
  case True
  then have "be_nat (take 4 (drop 4 bs)) * be_nat (take 4 bs) \<noteq> (length bs - 8) div fmt_size f"
    using assms(3) by (auto simp: mult.commute)
  then show ?thesis
    using assms(2) True by (simp add: unpack_matrix [OF assms(1)])
next
  case False
  then show ?thesis
    using assms(2) by (simp add: unpack_matrix [OF assms(1)])
qed

theorem matrix_length_mismatch_fails_witness:
  "LUT ''alld'' = Some (2, Fd) \<and>
   (\<exists>m. unpack ''alld'' [0x00, 0x00, 0x00, 0x01, 0x00, 0x00, 0x00, 0x01, 0x3F, 0xF0, 0, 0, 0] =
      Inl (ValueError m))"
proof -
  have h1: "LUT ''alld'' = Some (2, Fd)" by (simp add: LUT_def LUT_items_def)
  have h2: "8 \<le> length [0x00, 0x00, 0x00, 0x01, 0x00, 0x00, 0x00, 0x01, 0x3F, 0xF0, 0, 0, 0 :: byte]"
    by simp
  have h3: "length [0x00, 0x00, 0x00, 0x01, 0x00, 0x00, 0x00, 0x01, 0x3F, 0xF0, 0, 0, 0 :: byte] - 8 \<noteq>
    be_nat (take 4 [0x00, 0x00, 0x00, 0x01, 0x00, 0x00, 0x00, 0x01, 0x3F, 0xF0, 0, 0, 0]) *
    be_nat (take 4 (drop 4 [0x00, 0x00, 0x00, 0x01, 0x00, 0x00, 0x00, 0x01, 0x3F, 0xF0, 0, 0, 0])) *
    fmt_size Fd"
    by (simp add: be_nat_def)
  show ?thesis
    using h1 matrix_length_mismatch_fails [OF h1 h2 h3] by simp
qed

section \<open>Packing and unpacking again\<close>

lemma be_nat_single: "be_nat [b] = unat b"
  by (simp add: be_nat_def)

lemma float_round_trip: "word_of_nat (be_nat (be_bytes 8 (unat w))) = (w :: 64 word)"
proof -
  have "unat w < 256 ^ 8"
    using unsigned_less [of w, where ?'a = nat] by simp
  then show ?thesis by (simp add: be_nat_be_bytes)
qed

lemma i32_round_trip:
  assumes "- 2147483648 \<le> n" and "n \<le> 2147483647"
  shows "(let u = be_nat (be_bytes 4 (nat (n mod 2 ^ (8 * 4))))
          in if u < 2147483648 then int u else int u - 4294967296) = n"
proof (cases "0 \<le> n")
  case True
  with assms show ?thesis by (simp add: be_nat_be_bytes Let_def)
next
  case False
  have "(n + 4294967296) mod 4294967296 = n + 4294967296"
    using assms False by (intro mod_pos_pos_trivial) auto
  then have "n mod 4294967296 = n + 4294967296"
    by simp
  with assms False show ?thesis
    by (simp add: be_nat_be_bytes Let_def nat_mod_distrib)
qed

lemma pack_unpack_elem:
  assumes "in_range f v"
  shows "\<exists>b. pack_elem f v = Inr b \<and> length b = fmt_size f \<and> unpack_elem f b = v"
proof (cases f)
  case Fd
  with assms show ?thesis by (auto split: pyval.splits simp: float_round_trip)
next
  case Fbool
  with assms show ?thesis by (auto split: pyval.splits simp: be_nat_single)
next
  case FH
  with assms show ?thesis by (auto split: pyval.splits simp: pack_int_def be_nat_be_bytes)
next
  case FI
  with assms show ?thesis by (auto split: pyval.splits simp: pack_int_def be_nat_be_bytes)
next
  case Fi
  from assms Fi obtain n where v: "v = PInt n"
    and lo: "- 2147483648 \<le> n" and hi: "n \<le> 2147483647"
    by (auto split: pyval.splits)
  have "unpack_elem Fi (be_bytes 4 (nat (n mod 2 ^ (8 * 4)))) = PInt n"
    using i32_round_trip [OF lo hi] by (simp add: Let_def)
  then show ?thesis
    using lo hi by (simp add: Fi v pack_int_def)
qed


lemma pack_elems_round_trip:
  assumes "list_all (in_range f) xs"
  shows "\<exists>bs. pack_elems f xs = Inr bs \<and> length bs = length xs * fmt_size f \<and>
              map (unpack_elem f) (split_items (length xs) (fmt_size f) bs) = xs"
  using assms
proof (induction xs)
  case Nil
  then show ?case by simp
next
  case (Cons x xs)
  from Cons.prems have "in_range f x" and "list_all (in_range f) xs" by simp_all
  from pack_unpack_elem [OF this(1)] obtain b
    where b: "pack_elem f x = Inr b" "length b = fmt_size f" "unpack_elem f b = x" by blast
  from Cons.IH [OF \<open>list_all (in_range f) xs\<close>] obtain bs
    where bs: "pack_elems f xs = Inr bs" "length bs = length xs * fmt_size f"
      "map (unpack_elem f) (split_items (length xs) (fmt_size f) bs) = xs" by blast
  show ?case using b bs by simp
qed

lemma scalar_round_trip:
  assumes "LUT cmd = Some (0, f)" and "in_range f v"
  shows "\<exists>b. pack cmd v = Inr b \<and> unpack cmd b = Inr (Val v)"
proof -
  from pack_unpack_elem [OF assms(2)] obtain b
    where b: "pack_elem f v = Inr b" "length b = fmt_size f" "unpack_elem f b = v" by blast
  have "split_items 1 (fmt_size f) b = [b]"
    using b(2) by simp
  then have "unpack cmd b = Inr (Val v)"
    using assms(1) LUT_not_TENS [OF assms(1)] b by (simp add: unpack_def struct_unpack_def)
  moreover have "pack cmd v = Inr b"
    using assms(1) b(1) by (simp add: pack_def)
  ultimately show ?thesis by blast
qed

lemma vector_round_trip:
  assumes "LUT cmd = Some (1, f)" and "list_all (in_range f) xs" and "length xs < 4294967296"
    and "seq = PList xs \<or> seq = PTuple xs"
  shows "\<exists>b. pack cmd seq = Inr b \<and> unpack cmd b = Inr (Val (PTuple xs))"
proof -
  from pack_elems_round_trip [OF assms(2)] obtain bs
    where bs: "pack_elems f xs = Inr bs" "length bs = length xs * fmt_size f"
      "map (unpack_elem f) (split_items (length xs) (fmt_size f) bs) = xs" by blast
  have len: "py_len seq = Inr (length xs)" and it: "py_iter seq = xs"
    using assms(4) by auto
  have cnt: "pack_int 4 0 4294967295 (PInt (int (length xs))) = Inr (be_bytes 4 (length xs))"
    using assms(3) by (simp add: pack_int_def)
  have p: "pack cmd seq = Inr (be_bytes 4 (length xs) @ bs)"
    using assms(1) bs(1) len it cnt by (simp add: pack_def)
  have "unpack cmd (be_bytes 4 (length xs) @ bs) = Inr (Val (PTuple xs))"
    using assms(1,3) LUT_not_TENS [OF assms(1)] bs(2,3)
    by (simp add: unpack_def struct_unpack_def be_nat_be_bytes_4)
  with p show ?thesis by simp
qed

lemma pack_meas_neg: "pack ''meas'' (PInt (- 5)) = Inr [0xFF, 0xFF, 0xFF, 0xFB]"
  by (simp add: pack_def LUT_def LUT_items_def pack_int_def be_bytes_4)

lemma pack_selc_list:
  "pack ''selc'' (PList [PInt 1, PInt (- 1)]) =
     Inr [0x00, 0x00, 0x00, 0x02, 0x00, 0x00, 0x00, 0x01, 0xFF, 0xFF, 0xFF, 0xFF]"
  by (simp add: pack_def LUT_def LUT_items_def pack_int_def be_bytes_4)

text \<open>
  Claim C1 says that \<^verbatim>\<open>unpack\<close> of what \<^verbatim>\<open>pack\<close> produced is equal to the value packed,
  for vectors as for scalars. \<^verbatim>\<open>struct.unpack\<close> returns a tuple, and in Python a tuple is
  never equal to a list: the list \<^verbatim>\<open>[1, -1]\<close>, packed for \<^verbatim>\<open>selc\<close> as
  \<^verbatim>\<open>select_channels\<close> does, comes back as the tuple \<^verbatim>\<open>(1, -1)\<close>.
\<close>

theorem codec_list_counterexample:
  "pack ''selc'' (PList [PInt 1, PInt (- 1)]) =
     Inr [0x00, 0x00, 0x00, 0x02, 0x00, 0x00, 0x00, 0x01, 0xFF, 0xFF, 0xFF, 0xFF] \<and>
   unpack ''selc'' [0x00, 0x00, 0x00, 0x02, 0x00, 0x00, 0x00, 0x01, 0xFF, 0xFF, 0xFF, 0xFF] =
     Inr (Val (PTuple [PInt 1, PInt (- 1)])) \<and>
   unpack ''selc'' [0x00, 0x00, 0x00, 0x02, 0x00, 0x00, 0x00, 0x01, 0xFF, 0xFF, 0xFF, 0xFF] \<noteq>
     Inr (Val (PList [PInt 1, PInt (- 1)]))"
proof -
  have "LUT ''selc'' = Some (1, Fi)"
    by (simp add: LUT_def LUT_items_def)
  from vector_round_trip [OF this, of "[PInt 1, PInt (- 1)]" "PList [PInt 1, PInt (- 1)]"]
  have "unpack ''selc'' [0x00, 0x00, 0x00, 0x02, 0x00, 0x00, 0x00, 0x01, 0xFF, 0xFF, 0xFF, 0xFF] =
     Inr (Val (PTuple [PInt 1, PInt (- 1)]))"
    by (simp add: pack_selc_list)
  then show ?thesis by (simp add: pack_selc_list)
qed

text \<open>
  Claim C1, amended. For a scalar field of the table and a value in the range of its
  format, \<^verbatim>\<open>pack\<close> succeeds and \<^verbatim>\<open>unpack\<close> of the bytes gives the value back (a float with
  the bit pattern it had; Python's \<^verbatim>\<open>==\<close> then holds but for a NaN, which is unequal to
  itself). For a vector field and a list or a tuple of fewer than \<open>2^32\<close> values in the
  range of its format, \<^verbatim>\<open>pack\<close> succeeds and \<^verbatim>\<open>unpack\<close> of the bytes gives the tuple of the
  same values in the same order: the value packed when that was a tuple, and a value
  different from it when that was a list.
\<close>

theorem codec_round_trip:
  "(LUT cmd = Some (0, f) \<and> in_range f v \<longrightarrow>
      (\<exists>b. pack cmd v = Inr b \<and> unpack cmd b = Inr (Val v))) \<and>
   (LUT cmd' = Some (1, f') \<and> list_all (in_range f') xs \<and> length xs < 4294967296 \<and>
      (seq = PList xs \<or> seq = PTuple xs) \<longrightarrow>
      (\<exists>b. pack cmd' seq = Inr b \<and> unpack cmd' b = Inr (Val (PTuple xs)) \<and>
           (seq = PTuple xs \<longrightarrow> unpack cmd' b = Inr (Val seq)) \<and>
           (seq = PList xs \<longrightarrow> unpack cmd' b \<noteq> Inr (Val seq))))"
proof -
  have "\<exists>b. pack cmd' seq = Inr b \<and> unpack cmd' b = Inr (Val (PTuple xs)) \<and>
           (seq = PTuple xs \<longrightarrow> unpack cmd' b = Inr (Val seq)) \<and>
           (seq = PList xs \<longrightarrow> unpack cmd' b \<noteq> Inr (Val seq))"
    if "LUT cmd' = Some (1, f')" "list_all (in_range f') xs" "length xs < 4294967296"
      "seq = PList xs \<or> seq = PTuple xs"
  proof -
    from vector_round_trip [OF that] obtain b
      where "pack cmd' seq = Inr b" "unpack cmd' b = Inr (Val (PTuple xs))" by blast
    then show ?thesis by auto
  qed
  then show ?thesis
    using scalar_round_trip by blast
qed

lemma pack_selc_tuple:
  "pack ''selc'' (PTuple [PInt 1, PInt (- 1)]) =
     Inr [0x00, 0x00, 0x00, 0x02, 0x00, 0x00, 0x00, 0x01, 0xFF, 0xFF, 0xFF, 0xFF]"
  by (simp add: pack_def LUT_def LUT_items_def pack_int_def be_bytes_4)

theorem codec_round_trip_witness:
  "LUT ''meas'' = Some (0, Fi) \<and> in_range Fi (PInt (- 5)) \<and>
   pack ''meas'' (PInt (- 5)) = Inr [0xFF, 0xFF, 0xFF, 0xFB] \<and>
   unpack ''meas'' [0xFF, 0xFF, 0xFF, 0xFB] = Inr (Val (PInt (- 5))) \<and>
   LUT ''selc'' = Some (1, Fi) \<and> list_all (in_range Fi) [PInt 1, PInt (- 1)] \<and>
   pack ''selc'' (PTuple [PInt 1, PInt (- 1)]) =
     Inr [0x00, 0x00, 0x00, 0x02, 0x00, 0x00, 0x00, 0x01, 0xFF, 0xFF, 0xFF, 0xFF] \<and>
   unpack ''selc'' [0x00, 0x00, 0x00, 0x02, 0x00, 0x00, 0x00, 0x01, 0xFF, 0xFF, 0xFF, 0xFF] =
     Inr (Val (PTuple [PInt 1, PInt (- 1)]))"
proof -
  have h1: "LUT ''meas'' = Some (0, Fi)" and h2: "LUT ''selc'' = Some (1, Fi)"
    by (simp_all add: LUT_def LUT_items_def)
  have h3: "in_range Fi (PInt (- 5))" and h4: "list_all (in_range Fi) [PInt 1, PInt (- 1)]"
    by simp_all
  show ?thesis
    using h1 h2 h3 h4 pack_meas_neg pack_selc_tuple
      codec_round_trip [of "''meas''" Fi "PInt (- 5)" "''selc''" Fi "[PInt 1, PInt (- 1)]"
        "PTuple [PInt 1, PInt (- 1)]"]
    by simp
qed

section \<open>Waiting for data\<close>

lemma update_dom: "update td cmd bs = (r, td') \<Longrightarrow> dom (data td') = dom (data td)"
  by (auto simp: update_def split: if_splits sum.splits)

lemma process_message_dom:
  assumes "process_message c cmd bs = (r, c')"
  shows "dom (data (tensordata c')) = dom (data (tensordata c))"
proof (cases "update (tensordata c) cmd bs")
  case (Pair e td)
  from assms Pair have "tensordata c' = td \<or> tensordata c' = tensordata c"
    by (auto simp: process_message_def Let_def split: if_splits option.splits)
  with update_dom [OF Pair] show ?thesis by auto
qed

lemma process_message_raises_flag:
  "process_message c cmd bs = (Some e, c') \<Longrightarrow> data_ready_event c' = data_ready_event c"
  by (auto simp: process_message_def Let_def split: if_splits option.splits prod.splits)

lemma event_wait_result:
  "event_wait c ms = (w, c') \<Longrightarrow>
     w = data_ready_event c' \<and> dom (data (tensordata c')) = dom (data (tensordata c))"
proof (induction ms arbitrary: c)
  case Nil
  then show ?case by auto
next
  case (Cons m ms)
  obtain cmd bs where m: "m = (cmd, bs)" by (cases m)
  show ?case
  proof (cases "data_ready_event c")
    case True
    with Cons.prems m show ?thesis by auto
  next
    case False
    obtain r c1 where p: "process_message c cmd bs = (r, c1)" by (cases "process_message c cmd bs")
    show ?thesis
    proof (cases r)
      case None
      with Cons.prems m False p have "event_wait c1 ms = (w, c')" by simp
      from Cons.IH [OF this] process_message_dom [OF p] show ?thesis by simp
    next
      case (Some e)
      with Cons.prems m False p have "w = False" and "c' = c1" by simp_all
      with process_message_raises_flag [of c cmd bs e c1] p Some False process_message_dom [OF p]
      show ?thesis by simp
    qed
  qed
qed

lemma send_request:
  assumes "\<not> closed c" and "cmd = ''alld'' \<or> cmd = ''newd''"
  shows "send c cmd PNone =
           (None, c\<lparr>logged := logged c @ [LogDebugSend cmd ([0, 0, 0, 4] @ ascii_bytes cmd)],
                    sent := sent c @ [[0, 0, 0, 4] @ ascii_bytes cmd]\<rparr>)"
  using assms
  by (auto simp: send_def encode_ascii_def ascii_bytes_def pack_header_def pack_int_def
      be_bytes_4 Let_def)

lemma unpack_newd_1x1:
  "unpack ''newd'' [0, 0, 0, 1, 0, 0, 0, 1, 0x3F, 0xF0, 0, 0, 0, 0, 0, 0] =
     Inr (NdArray [1, 1] [PFloat 0x3FF0000000000000])"
  by (simp add: unpack_matrix [OF LUT_newd] be_nat_def)

lemma data_init_newd: "data init_data ''newd'' = Some (Val PNone)"
  by (simp add: init_data_def LUT_items_def)

text \<open>
  Claim C8. \<^verbatim>\<open>get_data\<close> sends the request \<^verbatim>\<open>alld\<close> when \<^verbatim>\<open>all_data\<close> is true and
  \<^verbatim>\<open>newd\<close> otherwise, as a message of length 4 without payload, and waits for the
  data-ready event. If the event is set when the wait ends (it was set already, or the
  reader has set it while handling the messages that arrived in time), \<^verbatim>\<open>get_data\<close> clears
  the event and returns the value that the store holds for the code at that moment. If the
  event is not set, \<^verbatim>\<open>get_data\<close> raises \<^verbatim>\<open>TimeoutError\<close>. The socket is open and the code is
  a key of the store, as it is from \<^verbatim>\<open>__init__\<close> on.
\<close>

theorem get_data_behaviour:
  assumes "\<not> closed c" and "cmd = (if all_data then ''alld'' else ''newd'')"
    and "cmd \<in> dom (data (tensordata c))"
  shows "(let c1 = c\<lparr>logged := logged c @ [LogDebugSend cmd ([0, 0, 0, 4] @ ascii_bytes cmd)],
                     sent := sent c @ [[0, 0, 0, 4] @ ascii_bytes cmd]\<rparr>;
              c2 = snd (event_wait c1 arrivals)
          in send c cmd PNone = (None, c1) \<and>
             fst (event_wait c1 arrivals) = data_ready_event c2 \<and>
             cmd \<in> dom (data (tensordata c2)) \<and>
             get_data c all_data arrivals =
               (if data_ready_event c2
                then (Inr (the (data (tensordata c2) cmd)), c2\<lparr>data_ready_event := False\<rparr>)
                else (Inl TimeoutError, c2)))"
proof -
  define c1 where "c1 = c\<lparr>logged := logged c @ [LogDebugSend cmd ([0, 0, 0, 4] @ ascii_bytes cmd)],
                     sent := sent c @ [[0, 0, 0, 4] @ ascii_bytes cmd]\<rparr>"
  obtain w c2 where ew: "event_wait c1 arrivals = (w, c2)" by (cases "event_wait c1 arrivals")
  have s: "send c cmd PNone = (None, c1)"
    using assms(1,2) by (simp add: send_request c1_def)
  from event_wait_result [OF ew] have w: "w = data_ready_event c2"
    and d: "dom (data (tensordata c2)) = dom (data (tensordata c1))" by simp_all
  have "dom (data (tensordata c1)) = dom (data (tensordata c))" by (simp add: c1_def)
  with d assms(3) have k: "cmd \<in> dom (data (tensordata c2))" by simp
  then obtain v where v: "data (tensordata c2) cmd = Some v" by auto
  have g: "get_data c all_data arrivals =
               (if data_ready_event c2
                then (Inr (the (data (tensordata c2) cmd)), c2\<lparr>data_ready_event := False\<rparr>)
                else (Inl TimeoutError, c2))"
    using s ew w v assms(2) by (auto simp: get_data_def Let_def)
  show ?thesis
    using s ew w k g unfolding Let_def c1_def [symmetric] by simp
qed

theorem get_data_behaviour_witness:
  "\<not> closed connected \<and> ''newd'' \<in> dom (data (tensordata connected)) \<and>
   fst (get_data connected False []) = Inl TimeoutError \<and>
   sent (snd (get_data connected False [])) = [[0x00, 0x00, 0x00, 0x04, 0x6E, 0x65, 0x77, 0x64]] \<and>
   fst (get_data connected False
         [(''newd'', [0, 0, 0, 1, 0, 0, 0, 1, 0x3F, 0xF0, 0, 0, 0, 0, 0, 0])]) =
     Inr (NdArray [1, 1] [PFloat 0x3FF0000000000000]) \<and>
   \<not> data_ready_event (snd (get_data connected False
         [(''newd'', [0, 0, 0, 1, 0, 0, 0, 1, 0x3F, 0xF0, 0, 0, 0, 0, 0, 0])]))"
proof -
  have h1: "\<not> closed connected" by (simp add: connected_def)
  have h2: "''newd'' = (if False then ''alld'' else ''newd'')" by simp
  have h3: "''newd'' \<in> dom (data (tensordata connected))"
    by (simp add: connected_def data_init_newd domIff)
  define c1 where "c1 = connected\<lparr>logged := logged connected @
           [LogDebugSend ''newd'' ([0, 0, 0, 4] @ ascii_bytes ''newd'')],
         sent := sent connected @ [[0, 0, 0, 4] @ ascii_bytes ''newd'']\<rparr>"
  define c2 where "c2 = c1\<lparr>logged := logged c1 @ [LogDebugReceived ''newd'' 16],
         tensordata := init_data\<lparr>data := (data init_data)(''newd'' \<mapsto>
            NdArray [1, 1] [PFloat 0x3FF0000000000000])\<rparr>,
         data_ready_event := True\<rparr>"
  have c1: "tensordata c1 = init_data" "\<not> data_ready_event c1"
    "sent c1 = [[0x00, 0x00, 0x00, 0x04, 0x6E, 0x65, 0x77, 0x64]]"
    by (simp_all add: c1_def connected_def ascii_bytes_def)
  have p: "process_message c1 ''newd'' [0, 0, 0, 1, 0, 0, 0, 1, 0x3F, 0xF0, 0, 0, 0, 0, 0, 0] =
      (None, c2)"
    by (simp add: process_message_def update_def unpack_newd_1x1 c1 data_init_newd Let_def c2_def)
  have ew0: "event_wait c1 [] = (False, c1)"
    using c1(2) by simp
  have ew1: "event_wait c1 [(''newd'', [0, 0, 0, 1, 0, 0, 0, 1, 0x3F, 0xF0, 0, 0, 0, 0, 0, 0])] =
      (True, c2)"
    using c1(2) p by (simp add: c2_def)
  have g0: "get_data connected False [] = (Inl TimeoutError, c1)"
    using get_data_behaviour [OF h1 h2 h3, of "[]"] c1(2)
    unfolding Let_def c1_def [symmetric] ew0 by simp
  have g1: "get_data connected False
      [(''newd'', [0, 0, 0, 1, 0, 0, 0, 1, 0x3F, 0xF0, 0, 0, 0, 0, 0, 0])] =
      (Inr (NdArray [1, 1] [PFloat 0x3FF0000000000000]), c2\<lparr>data_ready_event := False\<rparr>)"
    using get_data_behaviour [OF h1 h2 h3,
        of "[(''newd'', [0, 0, 0, 1, 0, 0, 0, 1, 0x3F, 0xF0, 0, 0, 0, 0, 0, 0])]"]
    unfolding Let_def c1_def [symmetric] ew1 by (simp add: c2_def)
  show ?thesis
    using h1 h3 by (simp add: g0 g1 c1)
qed

end
